theory Spec2Isabelle
  imports Complex_Main
begin

section \<open>SEL temperature instrument: the line decoder of \<open>sel_temperature_reader.py\<close>\<close>

text \<open>
  The decoder \<open>SelTemperature\<close> reads one ASCII line from a serial transport, checks its
  framing and converts each channel field to a number. Python's builtin \<open>float\<close> is not
  code of this repository: every definition below takes it as the parameter
  \<open>pf :: string \<Rightarrow> 'f option\<close>, where \<open>None\<close> stands for the \<open>ValueError\<close> the builtin
  raises and \<open>'f\<close> is the type of Python floats. The one float computation of the
  decoder, the read timeout set by \<open>start\<close>, is modelled on IEEE doubles. The result of
  \<open>time.time()\<close> and the pair returned by the transport's \<open>readline\<close> are arguments of
  \<open>read\<close>. Log calls have no effect on the decoder and are left out.
\<close>

subsection \<open>Values, errors and module constants\<close>

datatype error = IndexError | OverflowError

text \<open>An entry of the channel buffers and of \<open>output\<close>: a Python \<open>str\<close> or a \<open>float\<close>.\<close>

datatype 'f pyval = PStr string | PFloat 'f

definition is_float :: "'f pyval \<Rightarrow> bool" where
  "is_float v = (case v of PFloat x \<Rightarrow> True | PStr s \<Rightarrow> False)"

definition BAUDRATE :: int where
  "BAUDRATE = 19200"

definition PREAMBLE_SIZE :: nat where
  "PREAMBLE_SIZE = 4"

definition VALUE_SIZE :: nat where
  "VALUE_SIZE = 9"

definition DELIMITER :: string where
  "DELIMITER = '',''"

definition TERMINATOR :: string where
  "TERMINATOR = [CHR 0x0D, CHR 0x0A]"

text \<open>\<open>DEFAULT_VAL: float = "9999.9990"\<close>: annotated \<open>float\<close>, bound to a \<open>str\<close>.\<close>

definition DEFAULT_VAL :: "'f pyval" where
  "DEFAULT_VAL = PStr ''9999.9990''"

definition SENSOR_UNCONNECTED_VAL :: string where
  "SENSOR_UNCONNECTED_VAL = ''-201.0000''"

subsection \<open>Python list and string primitives\<close>

definition bind_r :: "error + 'a \<Rightarrow> ('a \<Rightarrow> error + 'b) \<Rightarrow> error + 'b" where
  "bind_r m f = (case m of Inl e \<Rightarrow> Inl e | Inr x \<Rightarrow> f x)"

text \<open>\<open>xs[i]\<close> and \<open>xs[i] = v\<close> for an index \<open>i \<ge> 0\<close>: out of range raises \<open>IndexError\<close>.\<close>

definition list_get :: "'a list \<Rightarrow> nat \<Rightarrow> error + 'a" where
  "list_get xs i = (if i < length xs then Inr (xs ! i) else Inl IndexError)"

definition list_set :: "'a list \<Rightarrow> nat \<Rightarrow> 'a \<Rightarrow> error + 'a list" where
  "list_set xs i v = (if i < length xs then Inr (xs[i := v]) else Inl IndexError)"

text \<open>A \<open>for\<close> loop over a list of indices whose body may raise: the first error ends it.\<close>

fun for_loop :: "('a \<Rightarrow> 's \<Rightarrow> error + 's) \<Rightarrow> 'a list \<Rightarrow> 's \<Rightarrow> error + 's" where
  "for_loop body [] s = Inr s"
| "for_loop body (x # xs) s =
     (case body x s of Inl e \<Rightarrow> Inl e | Inr s' \<Rightarrow> for_loop body xs s')"

text \<open>\<open>range(n)\<close> for a Python int \<open>n\<close>: empty when \<open>n \<le> 0\<close>.\<close>

definition py_range :: "int \<Rightarrow> nat list" where
  "py_range n = [0..<nat n]"

text \<open>\<open>s[-n:]\<close> and \<open>s[:-n]\<close> for \<open>n > 0\<close>: a string shorter than \<open>n\<close> gives the whole
  string and the empty string.\<close>

definition last_chars :: "nat \<Rightarrow> string \<Rightarrow> string" where
  "last_chars n s = drop (length s - n) s"

definition without_last :: "nat \<Rightarrow> string \<Rightarrow> string" where
  "without_last n s = take (length s - n) s"

text \<open>\<open>s.split(sep, maxsplit)\<close> for a one-character separator: splits at the leftmost
  \<open>maxsplit\<close> separators; a negative \<open>maxsplit\<close> puts no limit.\<close>

fun py_split :: "char \<Rightarrow> int \<Rightarrow> string \<Rightarrow> string list" where
  "py_split sep k [] = [Nil]"
| "py_split sep k (c # cs) =
     (if c = sep \<and> k \<noteq> 0 then [] # py_split sep (k - 1) cs
      else (let r = py_split sep k cs in (c # hd r) # tl r))"

text \<open>The decimal digits of a natural number, and the format spec \<open>{i:02}\<close>.\<close>

definition digit_char :: "nat \<Rightarrow> char" where
  "digit_char d = ''0123456789'' ! d"

fun dec :: "nat \<Rightarrow> string" where
  "dec n = (if n < 10 then [digit_char n] else dec (n div 10) @ [digit_char (n mod 10)])"

declare dec.simps [simp del]

definition fmt02 :: "nat \<Rightarrow> string" where
  "fmt02 i = (let d = dec i in replicate (2 - length d) (CHR ''0'') @ d)"

text \<open>\<open>f"C{i:02}="\<close>\<close>

definition preamble_of :: "nat \<Rightarrow> string" where
  "preamble_of i = ''C'' @ fmt02 i @ ''=''"

subsection \<open>The product of an int and a float\<close>

text \<open>
  \<open>start\<close> multiplies the int \<open>channels + 1\<close> by the float \<open>CH_READ_TIME\<close>. A double is
  kept as a pair \<open>(m, e)\<close> of integers that stands for \<open>m * 2^e\<close>. \<open>round53\<close> rounds
  \<open>n * 2^e\<close> to 53 significant bits, to nearest and ties to even. \<open>double_of_int\<close> is the
  conversion of a Python int to a float, which raises \<open>OverflowError\<close> (here \<open>None\<close>) when
  the rounded value reaches \<open>2^1024\<close>. \<open>double_imul k x\<close> is Python's \<open>k * x\<close>: the int is
  converted and the exact product of the two doubles is rounded once. The exponent of a
  pair is not bounded; for \<open>x = CH_READ_TIME\<close> no product of a converted int leaves the
  normal range of a double (it is zero or lies between 0.167 and \<open>2^1022\<close>), so no
  infinity and no subnormal number arises.
\<close>

type_synonym double = "int \<times> int"

definition double_val :: "double \<Rightarrow> real" where
  "double_val d =
     (if 0 \<le> snd d then of_int (fst d) * 2 ^ nat (snd d)
      else of_int (fst d) / 2 ^ nat (- snd d))"

fun bitlen :: "nat \<Rightarrow> nat" where
  "bitlen n = (if n = 0 then 0 else Suc (bitlen (n div 2)))"

declare bitlen.simps [simp del]

definition round53 :: "int \<Rightarrow> int \<Rightarrow> double" where
  "round53 n e =
     (let a = nat \<bar>n\<bar>; s = bitlen a - 53 in
      if s = 0 then (n, e)
      else (let q = a div 2 ^ s; r = a mod 2 ^ s; h = 2 ^ (s - 1);
                q' = (if h < r \<or> (r = h \<and> odd q) then q + 1 else q)
            in (sgn n * int q', e + int s)))"

definition double_of_int :: "int \<Rightarrow> double option" where
  "double_of_int k =
     (let d = round53 k 0 in
      if \<bar>fst d\<bar> * 2 ^ nat (snd d) < 2 ^ 1024 then Some d else None)"

definition double_imul :: "int \<Rightarrow> double \<Rightarrow> double option" where
  "double_imul k x =
     (case double_of_int k of
        None \<Rightarrow> None
      | Some d \<Rightarrow> Some (round53 (fst d * fst x) (snd d + snd x)))"

text \<open>\<open>CH_READ_TIME: float = 0.167\<close>: the double nearest to 0.167, \<open>0x1.5604189374bc7p-3\<close>.\<close>

definition CH_READ_TIME :: double where
  "CH_READ_TIME = (6016809102166983, - 55)"

subsection \<open>The transport and the decoder object\<close>

text \<open>The serial device as the decoder uses it: the attributes \<open>start\<close> assigns, unset
  (\<open>None\<close>) in a new device, as in \<open>MockTemperatureSensor.__init__\<close>.\<close>

record uart =
  uart_name :: string
  line_size :: "int option"
  terminator :: "string option"
  baudrate :: "int option"
  read_timeout :: "double option"

record 'f sel_temperature =
  name :: string
  channels :: int
  comport :: uart
  temperature :: "'f pyval list"
  output_buf :: "'f pyval list"
  preamble_str :: "string list"
  old_preamble_str :: "string list"
  tmp_temperature :: "'f pyval list"
  read_line_size :: int
  instances :: "string set"
  devices :: "uart set"

text \<open>
  \<open>SelTemperature.__init__\<close>. The base class \<open>SerialReader\<close> is not among the sources:
  its initialiser is the parameter \<open>super_init\<close>, which returns \<open>Some e\<close> when it raises
  \<open>e\<close>. \<open>self._instances\<close> and \<open>self._devices\<close> are bound to new empty dictionaries
  before they are consulted; the model keeps their key sets.
\<close>

definition sel_init ::
  "(string \<Rightarrow> uart \<Rightarrow> error option) \<Rightarrow> string \<Rightarrow> uart \<Rightarrow> int \<Rightarrow> error + 'f sel_temperature" where
  "sel_init super_init nm uart_device chans =
     (case super_init nm uart_device of
        Some e \<Rightarrow> Inl e
      | None \<Rightarrow>
          (let insts = ({} :: string set); devs = ({} :: uart set) in
           if nm \<notin> insts then
             if uart_device \<notin> devs then
               Inr \<lparr> name = nm,
                     channels = chans,
                     comport = uart_device,
                     temperature = map (\<lambda>i. DEFAULT_VAL) (py_range chans),
                     output_buf = [],
                     preamble_str = map (\<lambda>i. preamble_of i) (py_range chans),
                     old_preamble_str = map (\<lambda>i. preamble_of (i + 1)) (py_range chans),
                     tmp_temperature = map (\<lambda>i. DEFAULT_VAL) (py_range chans),
                     read_line_size =
                       chans * (int PREAMBLE_SIZE + int VALUE_SIZE + int (length DELIMITER))
                         - int (length DELIMITER) + int (length TERMINATOR),
                     instances = insert nm insts,
                     devices = insert uart_device devs \<rparr>
             else Inl IndexError
           else Inl IndexError))"

text \<open>
  \<open>SelTemperature.start\<close>; the device's \<open>open\<close> is the mock's, which does nothing. The
  product for the timeout is the last assignment: when the conversion of \<open>channels + 1\<close>
  raises, \<open>start\<close> raises; the state at a raise is not kept.
\<close>

definition start :: "'f sel_temperature \<Rightarrow> error + 'f sel_temperature" where
  "start st =
     (case double_imul (channels st + 1) CH_READ_TIME of
        None \<Rightarrow> Inl OverflowError
      | Some t \<Rightarrow>
          Inr (st\<lparr>comport := (comport st)\<lparr>
                 line_size := Some (read_line_size st),
                 terminator := Some TERMINATOR,
                 baudrate := Some BAUDRATE,
                 read_timeout := Some t\<rparr>\<rparr>))"

subsection \<open>Decoding one line\<close>

text \<open>\<open>_test_val\<close>: \<open>True\<close> when the preamble matches and the value text converts; \<open>False\<close>
  when the conversion raises, and \<open>None\<close>, which the caller's \<open>or\<close> and \<open>if\<close> take as
  false, when the preamble differs.\<close>

definition test_val :: "(string \<Rightarrow> 'f option) \<Rightarrow> string \<Rightarrow> string \<Rightarrow> bool" where
  "test_val pf preamble sensor_str =
     (if take PREAMBLE_SIZE sensor_str = preamble then
        (case pf (take (PREAMBLE_SIZE + VALUE_SIZE + length DELIMITER - 1 - PREAMBLE_SIZE)
                    (drop PREAMBLE_SIZE sensor_str)) of
           Some x \<Rightarrow> True
         | None \<Rightarrow> False)
      else False)"

definition temp_data_error :: string where
  "temp_data_error = ''Temperature data error. Could not convert value(s) to float: ''"

definition preamble_error :: string where
  "preamble_error = ''Malformed response. Channel preamble or channel data incorrect: ''"

definition line_error :: string where
  "line_error = ''Malformed response. Terminator or line size incorrect: ''"

text \<open>The body of the channel loop of \<open>read\<close>, on the triple of \<open>_tmp_temperature\<close>,
  \<open>temperature\<close> and \<open>err\<close>.\<close>

definition read_channel ::
  "(string \<Rightarrow> 'f option) \<Rightarrow> string list \<Rightarrow> string list \<Rightarrow> string \<Rightarrow> string list \<Rightarrow> nat \<Rightarrow>
   'f pyval list \<times> 'f pyval list \<times> string \<Rightarrow> error + ('f pyval list \<times> 'f pyval list \<times> string)" where
  "read_channel pf pres old_pres ser_line temps i = (\<lambda>(tmp, temp, err).
     bind_r (list_get pres i) (\<lambda>pre.
     bind_r (list_get temps i) (\<lambda>t.
     bind_r (if test_val pf pre t then Inr True
             else bind_r (list_get old_pres i) (\<lambda>old_pre. Inr (test_val pf old_pre t))) (\<lambda>ok.
     bind_r (if ok then
               (if drop PREAMBLE_SIZE t \<noteq> SENSOR_UNCONNECTED_VAL then
                  (case pf (drop PREAMBLE_SIZE t) of
                     Some x \<Rightarrow> bind_r (list_set tmp i (PFloat x)) (\<lambda>tmp'. Inr (tmp', err))
                   | None \<Rightarrow> Inr (tmp, temp_data_error @ ser_line))
                else Inr (tmp, err))
             else Inr (tmp, preamble_error @ ser_line)) (\<lambda>(tmp1, err1).
     bind_r (list_get tmp1 i) (\<lambda>v.
     bind_r (list_set temp i v) (\<lambda>temp1.
     Inr (tmp1, temp1, err1))))))))"

text \<open>\<open>SelTemperature.read\<close>: \<open>now\<close> is the result of \<open>time.time()\<close>, the pair is what the
  transport's \<open>readline\<close> returned. A raised \<open>IndexError\<close> is the result \<open>Inl IndexError\<close>.\<close>

definition read ::
  "(string \<Rightarrow> 'f option) \<Rightarrow> 'f \<Rightarrow> string \<times> string \<Rightarrow> 'f sel_temperature \<Rightarrow>
   error + 'f sel_temperature" where
  "read pf now rl st = (case rl of (err0, ser_line) \<Rightarrow>
     bind_r (for_loop (\<lambda>i tmp. list_set tmp i DEFAULT_VAL) (py_range (channels st))
               (tmp_temperature st)) (\<lambda>tmp0.
     bind_r (if err0 = ''OK'' then
               if last_chars (length TERMINATOR) ser_line = TERMINATOR
                  \<and> int (length ser_line) = read_line_size st then
                 (let line = without_last (length TERMINATOR) ser_line;
                      temps = py_split (CHR '','') (channels st - 1) line
                  in for_loop (read_channel pf (preamble_str st) (old_preamble_str st) ser_line temps)
                       (py_range (channels st)) (tmp0, temperature st, err0))
               else Inr (tmp0, temperature st, line_error @ ser_line)
             else Inr (tmp0, temperature st, err0)) (\<lambda>(tmp1, temp1, err1).
     bind_r (for_loop (\<lambda>i out. bind_r (list_get temp1 i) (\<lambda>v. Inr (out @ [v])))
               (py_range (channels st)) [PFloat now, PStr err1]) (\<lambda>out.
     Inr (st\<lparr>tmp_temperature := tmp1, temperature := temp1, output_buf := out\<rparr>)))))"

text \<open>The parts of a sample, as \<open>read\<close> lays them out in \<open>self.output\<close> (here \<open>output_buf\<close>).\<close>

definition sample_status :: "'f sel_temperature \<Rightarrow> 'f pyval" where
  "sample_status st = output_buf st ! 1"

definition sample_values :: "'f sel_temperature \<Rightarrow> 'f pyval list" where
  "sample_values st = drop 2 (output_buf st)"

subsection \<open>The mock instrument\<close>

text \<open>\<open>MockTemperatureSensor.format_temperature\<close> and \<open>readline\<close>. The value text
  \<open>f"{temp:09.4f}"\<close> of the random draw for channel \<open>i\<close> (and the text written on the
  \<open>nan_channel\<close>) is the argument \<open>txt i\<close>; \<open>term\<close> is the device's \<open>terminator\<close>
  attribute. The sleep between channels is left out.\<close>

definition format_temperature :: "int \<Rightarrow> nat \<Rightarrow> string \<Rightarrow> (nat \<Rightarrow> string) \<Rightarrow> nat \<Rightarrow> string" where
  "format_temperature chans count_offset term txt i =
     ''C'' @ fmt02 (i + count_offset) @ ''='' @ txt i
       @ (if int i = chans - 1 then term else DELIMITER)"

definition mock_line :: "int \<Rightarrow> nat \<Rightarrow> string \<Rightarrow> (nat \<Rightarrow> string) \<Rightarrow> string" where
  "mock_line chans count_offset term txt =
     concat (map (format_temperature chans count_offset term txt) (py_range chans))"

definition readline :: "int \<Rightarrow> nat \<Rightarrow> string \<Rightarrow> (nat \<Rightarrow> string) \<Rightarrow> string \<times> string" where
  "readline chans count_offset term txt = (''OK'', mock_line chans count_offset term txt)"

subsection \<open>An instance of the conversion for concrete lines\<close>

text \<open>
  To run \<open>read\<close> on concrete lines the parameter \<open>pf\<close> needs a value. \<open>plain_float\<close>
  converts the plain decimal literals of the wire format (an optional sign, digits, an
  optional point and digits) to their exact value, and rejects every other text. The
  builtin also accepts exponents, \<open>inf\<close>, \<open>nan\<close>, underscores and surrounding white space;
  no line used below contains such a text.
\<close>

definition digit_val :: "char \<Rightarrow> nat option" where
  "digit_val c = map_of (zip ''0123456789'' [0, 1, 2, 3, 4, 5, 6, 7, 8, 9]) c"

fun digits_val :: "string \<Rightarrow> nat \<Rightarrow> nat option" where
  "digits_val [] acc = Some acc"
| "digits_val (c # cs) acc =
     (case digit_val c of None \<Rightarrow> None | Some d \<Rightarrow> digits_val cs (10 * acc + d))"

definition unsigned_float :: "string \<Rightarrow> real option" where
  "unsigned_float s =
     (let ip = takeWhile (\<lambda>c. c \<noteq> CHR ''.'') s;
          fp = drop 1 (dropWhile (\<lambda>c. c \<noteq> CHR ''.'') s)
      in if ip = [] \<and> fp = [] then None
         else (case (digits_val ip 0, digits_val fp 0) of
                 (Some a, Some b) \<Rightarrow> Some (real a + real b / 10 ^ length fp)
               | _ \<Rightarrow> None))"

fun plain_float :: "string \<Rightarrow> real option" where
  "plain_float [] = None"
| "plain_float (c # cs) =
     (if c = CHR ''-'' then map_option uminus (unsigned_float cs)
      else if c = CHR ''+'' then unsigned_float cs
      else unsigned_float (c # cs))"

declare plain_float.simps [simp del]

subsection \<open>The decoder's invariant and the outcome of one channel\<close>

text \<open>What \<open>__init__\<close> establishes and \<open>read\<close> keeps: both channel buffers have one entry
  per channel, the preamble tables and the line size are those of the channel count.\<close>

definition wf_sel :: "'f sel_temperature \<Rightarrow> bool" where
  "wf_sel st =
     (length (temperature st) = nat (channels st)
      \<and> length (tmp_temperature st) = nat (channels st)
      \<and> preamble_str st = map (\<lambda>i. preamble_of i) (py_range (channels st))
      \<and> old_preamble_str st = map (\<lambda>i. preamble_of (i + 1)) (py_range (channels st))
      \<and> read_line_size st =
          channels st * (int PREAMBLE_SIZE + int VALUE_SIZE + int (length DELIMITER))
            - int (length DELIMITER) + int (length TERMINATOR))"

text \<open>The effect of one pass of the channel loop on field \<open>t\<close> of channel \<open>i\<close>, read off
  \<open>read_channel\<close>: whether the field is accepted, the value stored for the channel and the
  error text after the pass.\<close>

definition accepted :: "(string \<Rightarrow> 'f option) \<Rightarrow> nat \<Rightarrow> string \<Rightarrow> bool" where
  "accepted pf i t = (test_val pf (preamble_of i) t \<or> test_val pf (preamble_of (i + 1)) t)"

definition chan_val :: "(string \<Rightarrow> 'f option) \<Rightarrow> nat \<Rightarrow> string \<Rightarrow> 'f pyval" where
  "chan_val pf i t =
     (if accepted pf i t \<and> drop PREAMBLE_SIZE t \<noteq> SENSOR_UNCONNECTED_VAL then
        (case pf (drop PREAMBLE_SIZE t) of Some x \<Rightarrow> PFloat x | None \<Rightarrow> DEFAULT_VAL)
      else DEFAULT_VAL)"

definition chan_err :: "(string \<Rightarrow> 'f option) \<Rightarrow> string \<Rightarrow> nat \<Rightarrow> string \<Rightarrow> string \<Rightarrow> string" where
  "chan_err pf ser_line i t err =
     (if accepted pf i t then
        (if drop PREAMBLE_SIZE t \<noteq> SENSOR_UNCONNECTED_VAL \<and> pf (drop PREAMBLE_SIZE t) = None
         then temp_data_error @ ser_line else err)
      else preamble_error @ ser_line)"

text \<open>\<open>",".join(fields)\<close>\<close>

fun join_comma :: "string list \<Rightarrow> string" where
  "join_comma [] = []"
| "join_comma [f] = f"
| "join_comma (f # g # fs) = f @ CHR '','' # join_comma (g # fs)"

subsection \<open>A four-channel decoder on the mock device\<close>

definition mock_sensor :: uart where
  "mock_sensor = \<lparr>uart_name = ''MockSensor'', line_size = None, terminator = None,
                   baudrate = None, read_timeout = None\<rparr>"

definition new_sel :: "string \<Rightarrow> uart \<Rightarrow> int \<Rightarrow> real sel_temperature" where
  "new_sel nm dev chans = projr (sel_init (\<lambda>n d. None) nm dev chans)"

definition sel4 :: "real sel_temperature" where
  "sel4 = new_sel ''MockSensor'' mock_sensor 4"

definition txt4 :: "nat \<Rightarrow> string" where
  "txt4 i = [''0018.1234'', ''0020.0000'', ''0025.5000'', ''0029.9999''] ! i"

definition bad_terminator :: string where
  "bad_terminator = [CHR 0x0A, CHR 0x0A]"

text \<open>The decoder after it has read the line with the values \<open>txt4\<close> at time 0; a line
  whose channel 2 carries the unconnected-sensor text, and the decoder after it has read
  that line at time 1.\<close>

definition vals4 :: "real pyval list" where
  "vals4 = [PFloat (181234 / 10000), PFloat 20, PFloat (255 / 10), PFloat (299999 / 10000)]"

definition sel4_good :: "real sel_temperature" where
  "sel4_good = sel4\<lparr>tmp_temperature := vals4, temperature := vals4,
                     output_buf := PFloat 0 # PStr ''OK'' # vals4\<rparr>"

definition txt4u :: "nat \<Rightarrow> string" where
  "txt4u i = [''0018.1234'', ''0020.0000'', ''-201.0000'', ''0029.9999''] ! i"

definition vals4u :: "real pyval list" where
  "vals4u = [PFloat (181234 / 10000), PFloat 20, PStr ''9999.9990'', PFloat (299999 / 10000)]"

definition sel4_unconnected :: "real sel_temperature" where
  "sel4_unconnected = sel4\<lparr>tmp_temperature := vals4u, temperature := vals4u,
                            output_buf := PFloat 1 # PStr ''OK'' # vals4u\<rparr>"

text \<open>The values and the error text of a whole line of the mock, channel by channel.\<close>

definition frame_vals :: "(string \<Rightarrow> 'f option) \<Rightarrow> nat \<Rightarrow> (nat \<Rightarrow> string) \<Rightarrow> nat \<Rightarrow> 'f pyval list" where
  "frame_vals pf off txt n = map (\<lambda>i. chan_val pf i (preamble_of (i + off) @ txt i)) [0..<n]"

definition frame_err :: "(string \<Rightarrow> 'f option) \<Rightarrow> string \<Rightarrow> nat \<Rightarrow> (nat \<Rightarrow> string) \<Rightarrow> nat \<Rightarrow> string" where
  "frame_err pf ser_line off txt n =
     foldl (\<lambda>e i. chan_err pf ser_line i (preamble_of (i + off) @ txt i) e) ''OK'' [0..<n]"

section \<open>Properties\<close>

subsection \<open>Loops\<close>

lemma bind_r_simps [simp]:
  "bind_r (Inr x) f = f x"
  "bind_r (Inl e) f = Inl e"
  by (simp_all add: bind_r_def)

lemma for_loop_append:
  "for_loop body (xs @ ys) s =
     (case for_loop body xs s of Inl e \<Rightarrow> Inl e | Inr s' \<Rightarrow> for_loop body ys s')"
  by (induction xs arbitrary: s) (auto split: sum.splits)

lemma reset_loop:
  "k \<le> length tmp \<Longrightarrow>
   for_loop (\<lambda>i t. list_set t i d) [0..<k] tmp = Inr (replicate k d @ drop k tmp)"
proof (induction k)
  case 0
  then show ?case by simp
next
  case (Suc k)
  then have "k < length tmp" by simp
  then have "(replicate k d @ drop k tmp)[k := d] = replicate (Suc k) d @ drop (Suc k) tmp"
    by (simp add: list_update_append replicate_append_same upd_conv_take_nth_drop Cons_nth_drop_Suc [symmetric])
  with Suc show ?case
    by (simp add: for_loop_append list_set_def)
qed

lemma output_loop:
  "k \<le> length temp \<Longrightarrow>
   for_loop (\<lambda>i out. bind_r (list_get temp i) (\<lambda>v. Inr (out @ [v]))) [0..<k] out0
     = Inr (out0 @ take k temp)"
proof (induction k)
  case 0
  then show ?case by simp
next
  case (Suc k)
  then show ?case
    by (simp add: for_loop_append list_get_def bind_r_def take_Suc_conv_app_nth)
qed

lemma list_update_same: "xs ! i = v \<Longrightarrow> xs[i := v] = xs"
  by (metis list_update_id)

lemma read_channel_step:
  assumes "i < length pres" "i < length old_pres" "i < length temps"
    and "i < length tmp" "i < length temp" "tmp ! i = DEFAULT_VAL"
    and "pres ! i = preamble_of i" "old_pres ! i = preamble_of (i + 1)"
  shows "read_channel pf pres old_pres ser_line temps i (tmp, temp, err)
         = Inr (tmp[i := chan_val pf i (temps ! i)], temp[i := chan_val pf i (temps ! i)],
                chan_err pf ser_line i (temps ! i) err)"
  using assms
  by (auto simp: read_channel_def bind_r_def list_get_def list_set_def chan_val_def chan_err_def
      accepted_def list_update_same split: option.splits)

lemma channel_loop:
  assumes "k \<le> n" "k \<le> length temps" "length temp0 = n"
  shows "for_loop (read_channel pf (map preamble_of [0..<n])
                     (map (\<lambda>i. preamble_of (Suc i)) [0..<n]) ser_line temps)
           [0..<k] (replicate n DEFAULT_VAL, temp0, err0)
         = Inr (map (\<lambda>i. chan_val pf i (temps ! i)) [0..<k] @ replicate (n - k) DEFAULT_VAL,
                map (\<lambda>i. chan_val pf i (temps ! i)) [0..<k] @ drop k temp0,
                foldl (\<lambda>e i. chan_err pf ser_line i (temps ! i) e) err0 [0..<k])"
  using assms
proof (induction k)
  case 0
  then show ?case by simp
next
  case (Suc k)
  let ?body = "read_channel pf (map preamble_of [0..<n])
                 (map (\<lambda>i. preamble_of (Suc i)) [0..<n]) ser_line temps"
  let ?vs = "map (\<lambda>i. chan_val pf i (temps ! i)) [0..<k]"
  let ?v = "chan_val pf k (temps ! k)"
  let ?e = "foldl (\<lambda>e i. chan_err pf ser_line i (temps ! i) e) err0 [0..<k]"
  have k: "k < n" "k < length temps" "k < length temp0" using Suc.prems by simp_all
  have ih: "for_loop ?body [0..<k] (replicate n DEFAULT_VAL, temp0, err0)
            = Inr (?vs @ replicate (n - k) DEFAULT_VAL, ?vs @ drop k temp0, ?e)"
    using Suc.IH Suc.prems by simp
  have step: "?body k (?vs @ replicate (n - k) DEFAULT_VAL, ?vs @ drop k temp0, ?e)
              = Inr ((?vs @ replicate (n - k) DEFAULT_VAL)[k := ?v],
                     (?vs @ drop k temp0)[k := ?v], chan_err pf ser_line k (temps ! k) ?e)"
    using k by (intro read_channel_step) (simp_all add: nth_append)
  have u1: "(?vs @ replicate (n - k) DEFAULT_VAL)[k := ?v]
            = (?vs @ [?v]) @ replicate (n - Suc k) (DEFAULT_VAL :: 'a pyval)"
  proof -
    from k obtain m where m: "n - k = Suc m" "n - Suc k = m"
      by (metis Suc_diff_Suc)
    show ?thesis by (simp add: list_update_append m)
  qed
  have u2: "(?vs @ drop k temp0)[k := ?v] = (?vs @ [?v]) @ drop (Suc k) temp0"
    using k by (simp add: list_update_append Cons_nth_drop_Suc [symmetric])
  have "for_loop ?body [0..<Suc k] (replicate n DEFAULT_VAL, temp0, err0)
        = for_loop ?body [k] (?vs @ replicate (n - k) DEFAULT_VAL, ?vs @ drop k temp0, ?e)"
    by (simp add: for_loop_append ih)
  also have "\<dots> = Inr ((?vs @ [?v]) @ replicate (n - Suc k) DEFAULT_VAL,
                        (?vs @ [?v]) @ drop (Suc k) temp0, chan_err pf ser_line k (temps ! k) ?e)"
    by (simp only: for_loop.simps step u1 u2 sum.case)
  finally show ?case by simp
qed

lemma channel_loop_short:
  assumes "length temps < n" "length temp0 = n"
  shows "for_loop (read_channel pf (map preamble_of [0..<n])
                     (map (\<lambda>i. preamble_of (Suc i)) [0..<n]) ser_line temps)
           [0..<n] (replicate n DEFAULT_VAL, temp0, err0) = Inl IndexError"
proof -
  let ?body = "read_channel pf (map preamble_of [0..<n])
                 (map (\<lambda>i. preamble_of (Suc i)) [0..<n]) ser_line temps"
  let ?k = "length temps"
  have split: "[0..<n] = [0..<?k] @ ?k # [Suc ?k..<n]"
    using assms(1) by (metis less_imp_le_nat upt_add_eq_append upt_conv_Cons le0 add_0 le_add_diff_inverse)
  have pre: "for_loop ?body [0..<?k] (replicate n DEFAULT_VAL, temp0, err0)
        = Inr (map (\<lambda>i. chan_val pf i (temps ! i)) [0..<?k] @ replicate (n - ?k) DEFAULT_VAL,
               map (\<lambda>i. chan_val pf i (temps ! i)) [0..<?k] @ drop ?k temp0,
               foldl (\<lambda>e i. chan_err pf ser_line i (temps ! i) e) err0 [0..<?k])"
    using assms by (intro channel_loop) simp_all
  have fail: "?body ?k s = Inl IndexError" for s
    using assms(1) by (cases s) (simp add: read_channel_def bind_r_def list_get_def)
  show ?thesis
    by (subst split) (simp add: for_loop_append pre fail)
qed

lemma wf_selD:
  assumes "wf_sel st"
  shows "length (temperature st) = nat (channels st)"
    and "length (tmp_temperature st) = nat (channels st)"
    and "preamble_str st = map preamble_of [0..<nat (channels st)]"
    and "old_preamble_str st = map (\<lambda>i. preamble_of (Suc i)) [0..<nat (channels st)]"
    and "read_line_size st = channels st * 14 + 1"
  using assms
  by (simp_all add: wf_sel_def py_range_def PREAMBLE_SIZE_def VALUE_SIZE_def DELIMITER_def
      TERMINATOR_def)

lemma reset_all:
  assumes "wf_sel st"
  shows "for_loop (\<lambda>i tmp. list_set tmp i DEFAULT_VAL) (py_range (channels st))
           (tmp_temperature st) = Inr (replicate (nat (channels st)) DEFAULT_VAL)"
  using reset_loop [of "nat (channels st)" "tmp_temperature st" DEFAULT_VAL] wf_selD(2) [OF assms]
  by (simp add: py_range_def)

lemma output_all:
  assumes "length temp = nat (channels st)"
  shows "for_loop (\<lambda>i out. bind_r (list_get temp i) (\<lambda>v. Inr (out @ [v])))
           (py_range (channels st)) out0 = Inr (out0 @ temp)"
  using output_loop [of "nat (channels st)" temp out0] assms
  by (simp add: py_range_def)

lemma read_malformed:
  assumes "wf_sel st"
    and "\<not> (err = ''OK'' \<and> last_chars (length TERMINATOR) ser_line = TERMINATOR
            \<and> int (length ser_line) = read_line_size st)"
  shows "read pf now (err, ser_line) st
         = Inr (st\<lparr>tmp_temperature := replicate (nat (channels st)) DEFAULT_VAL,
                   output_buf := PFloat now
                     # PStr (if err = ''OK'' then line_error @ ser_line else err)
                     # temperature st\<rparr>)"
  using assms(2) wf_selD(1) [OF assms(1)]
  by (auto simp: read_def reset_all [OF assms(1)] output_all)

lemma read_fields:
  assumes "wf_sel st"
    and "last_chars (length TERMINATOR) ser_line = TERMINATOR"
    and "int (length ser_line) = read_line_size st"
    and "temps = py_split (CHR '','') (channels st - 1) (without_last (length TERMINATOR) ser_line)"
    and "nat (channels st) \<le> length temps"
    and "vals = map (\<lambda>i. chan_val pf i (temps ! i)) [0..<nat (channels st)]"
  shows "read pf now (''OK'', ser_line) st
         = Inr (st\<lparr>tmp_temperature := vals, temperature := vals,
                   output_buf := PFloat now
                     # PStr (foldl (\<lambda>e i. chan_err pf ser_line i (temps ! i) e) ''OK'' [0..<nat (channels st)])
                     # vals\<rparr>)"
proof -
  let ?n = "nat (channels st)"
  have loop: "for_loop (read_channel pf (preamble_str st) (old_preamble_str st) ser_line temps)
                (py_range (channels st)) (replicate ?n DEFAULT_VAL, temperature st, ''OK'')
              = Inr (vals, vals, foldl (\<lambda>e i. chan_err pf ser_line i (temps ! i) e) ''OK'' [0..<?n])"
    using channel_loop [of ?n ?n temps "temperature st" pf ser_line "''OK''"]
      wf_selD [OF assms(1)] assms(5,6)
    by (simp add: py_range_def)
  have len: "length vals = nat (channels st)" using assms(6) by simp
  show ?thesis
    using assms(2,3) loop
    by (simp add: read_def reset_all [OF assms(1)] assms(4) [symmetric]
        output_all [OF len])
qed

lemma read_short:
  assumes "wf_sel st"
    and "last_chars (length TERMINATOR) ser_line = TERMINATOR"
    and "int (length ser_line) = read_line_size st"
    and "length (py_split (CHR '','') (channels st - 1)
           (without_last (length TERMINATOR) ser_line)) < nat (channels st)"
  shows "read pf now (''OK'', ser_line) st = Inl IndexError"
proof -
  let ?n = "nat (channels st)"
  let ?temps = "py_split (CHR '','') (channels st - 1) (without_last (length TERMINATOR) ser_line)"
  have loop: "for_loop (read_channel pf (preamble_str st) (old_preamble_str st) ser_line ?temps)
                (py_range (channels st)) (replicate ?n DEFAULT_VAL, temperature st, ''OK'')
              = Inl IndexError"
    using channel_loop_short [of ?temps ?n "temperature st" pf ser_line "''OK''"]
      wf_selD [OF assms(1)] assms(4)
    by (simp add: py_range_def)
  show ?thesis
    using assms(2,3) loop
    by (simp add: read_def reset_all [OF assms(1)])
qed

lemma sel_init_wf:
  "sel_init super_init nm dev chans = Inr st \<Longrightarrow> wf_sel st"
  by (auto simp: sel_init_def wf_sel_def py_range_def split: option.splits)

lemma sel4_wf: "wf_sel sel4"
  by (rule sel_init_wf [of "\<lambda>n d. None" "''MockSensor''" mock_sensor 4])
     (simp add: sel4_def new_sel_def sel_init_def)

lemma sel4_fields:
  "channels sel4 = 4" "read_line_size sel4 = 57"
  "temperature sel4 = replicate 4 DEFAULT_VAL"
  by (simp_all add: sel4_def new_sel_def sel_init_def py_range_def PREAMBLE_SIZE_def VALUE_SIZE_def
      DELIMITER_def TERMINATOR_def upt_rec [of _ "numeral _"] numeral_eq_Suc)

subsection \<open>Splitting a line of the mock into its fields\<close>

lemma py_split_no_sep:
  "sep \<notin> set s \<or> k = 0 \<Longrightarrow> py_split sep k s = [s]"
  by (induction s) (auto simp: Let_def)

lemma py_split_first:
  "sep \<notin> set f \<Longrightarrow> k \<noteq> 0 \<Longrightarrow> py_split sep k (f @ sep # rest) = f # py_split sep (k - 1) rest"
  by (induction f) (auto simp: Let_def)

lemma py_split_join:
  "fs \<noteq> [] \<Longrightarrow> \<forall>f \<in> set (butlast fs). CHR '','' \<notin> set f \<Longrightarrow>
   py_split (CHR '','') (int (length fs) - 1) (join_comma fs) = fs"
proof (induction fs rule: join_comma.induct)
  case 1
  then show ?case by simp
next
  case (2 f)
  then show ?case by (simp add: py_split_no_sep)
next
  case (3 f g fs)
  then show ?case by (simp add: py_split_first)
qed

lemma length_join_comma:
  "fs \<noteq> [] \<Longrightarrow> length (join_comma fs) + 1 = sum_list (map length fs) + length fs"
  by (induction fs rule: join_comma.induct) simp_all

lemma mock_tail:
  "k < n \<Longrightarrow>
   concat (map (format_temperature (int n) off term txt) [k..<n])
     = join_comma (map (\<lambda>i. preamble_of (i + off) @ txt i) [k..<n]) @ term"
proof (induction k rule: strict_inc_induct)
  case (base i)
  then show ?case
    by (simp add: format_temperature_def preamble_of_def)
next
  case (step i)
  from step.hyps have "Suc i < n \<or> Suc i = n" by auto
  then show ?case
  proof
    assume lt: "Suc i < n"
    have a: "[i..<n] = i # Suc i # [Suc (Suc i)..<n]"
      using lt by (simp add: upt_conv_Cons)
    have b: "[Suc i..<n] = Suc i # [Suc (Suc i)..<n]"
      using lt by (simp add: upt_conv_Cons)
    have ne: "int i \<noteq> int n - 1" using lt by linarith
    show ?thesis
      using step.IH lt unfolding a b
      by (simp add: format_temperature_def preamble_of_def DELIMITER_def ne)
  next
    assume "Suc i = n"
    then show ?thesis
      by (auto simp: format_temperature_def preamble_of_def)
  qed
qed

lemma mock_line_join:
  assumes "0 < chans"
  shows "mock_line chans off term txt
         = join_comma (map (\<lambda>i. preamble_of (i + off) @ txt i) [0..<nat chans]) @ term"
proof -
  have "0 < nat chans" using assms by simp
  from mock_tail [OF this] assms show ?thesis
    by (simp add: mock_line_def py_range_def)
qed

lemma digit_char_not_comma [simp]: "d < 10 \<Longrightarrow> CHR '','' \<noteq> digit_char d"
proof -
  assume "d < 10"
  then have "d \<in> {0, 1, 2, 3, 4, 5, 6, 7, 8, 9}" by auto
  then show ?thesis by (auto simp: digit_char_def)
qed

lemma dec_no_comma: "CHR '','' \<notin> set (dec n)"
proof (induction n rule: dec.induct)
  case (1 n)
  show ?case
  proof (cases "n < 10")
    case True
    then show ?thesis by (subst dec.simps) simp
  next
    case False
    then show ?thesis using 1
      by (subst dec.simps) simp
  qed
qed

lemma preamble_no_comma: "CHR '','' \<notin> set (preamble_of i)"
  by (simp add: preamble_of_def fmt02_def Let_def dec_no_comma)

lemma length_dec_pos: "Suc 0 \<le> length (dec n)"
  by (subst dec.simps) simp

lemma length_dec_small: "n < 10 \<Longrightarrow> length (dec n) = 1"
  by (subst dec.simps) simp

lemma length_dec_two: "10 \<le> n \<Longrightarrow> n < 100 \<Longrightarrow> length (dec n) = 2"
  by (subst dec.simps) (simp add: length_dec_small)

lemma length_dec_big: "100 \<le> n \<Longrightarrow> 3 \<le> length (dec n)"
proof -
  assume a: "100 \<le> n"
  then have "10 \<le> n div 10" by simp
  then have "2 \<le> length (dec (n div 10))"
    using length_dec_pos [of "n div 10 div 10"]
    by (subst dec.simps) simp
  then show ?thesis using a by (subst dec.simps) simp
qed

lemma length_preamble_ge: "4 \<le> length (preamble_of i)"
  using length_dec_pos [of i]
  by (simp add: preamble_of_def fmt02_def Let_def)

lemma length_preamble_small: "i < 100 \<Longrightarrow> length (preamble_of i) = 4"
  using length_dec_small [of i] length_dec_two [of i]
  by (cases "i < 10") (simp_all add: preamble_of_def fmt02_def Let_def)

lemma length_preamble_4D: "length (preamble_of i) = 4 \<Longrightarrow> i < 100"
  using length_dec_big [of i]
  by (cases "i < 100") (simp_all add: preamble_of_def fmt02_def Let_def)

lemma sum_list_lower: "\<forall>x \<in> set xs. c \<le> f x \<Longrightarrow> c * length xs \<le> sum_list (map f xs)"
  for c :: nat
  by (induction xs) (auto simp: add_mono)

lemma sum_list_tight:
  fixes c :: nat
  assumes "\<forall>x \<in> set xs. c \<le> f x" "sum_list (map f xs) = c * length xs"
  shows "\<forall>x \<in> set xs. f x = c"
  using assms
proof (induction xs)
  case Nil
  then show ?case by simp
next
  case (Cons a xs)
  have lo: "c * length xs \<le> sum_list (map f xs)"
    using Cons.prems(1) by (intro sum_list_lower) simp
  have fa: "c \<le> f a" using Cons.prems(1) by simp
  have eq: "f a + sum_list (map f xs) = c + c * length xs"
    using Cons.prems(2) by simp
  from lo fa eq have "f a = c" "sum_list (map f xs) = c * length xs" by linarith+
  with Cons show ?case by simp
qed

lemma field_good:
  assumes "length pre = 4" "pre = preamble_of i \<or> pre = preamble_of (Suc i)"
    and "length v = 9" "pf v = Some x" "v \<noteq> SENSOR_UNCONNECTED_VAL"
  shows "chan_val pf i (pre @ v) = PFloat x" and "chan_err pf ser_line i (pre @ v) e = e"
  using assms
  by (auto simp: chan_val_def chan_err_def accepted_def test_val_def PREAMBLE_SIZE_def
      VALUE_SIZE_def DELIMITER_def)

lemma field_unconnected:
  assumes "length pre = 4" "pre = preamble_of i \<or> pre = preamble_of (Suc i)"
    and "pf SENSOR_UNCONNECTED_VAL = Some x"
  shows "chan_val pf i (pre @ SENSOR_UNCONNECTED_VAL) = DEFAULT_VAL"
    and "chan_err pf ser_line i (pre @ SENSOR_UNCONNECTED_VAL) e = e"
  using assms
  by (auto simp: chan_val_def chan_err_def accepted_def test_val_def PREAMBLE_SIZE_def
      VALUE_SIZE_def DELIMITER_def SENSOR_UNCONNECTED_VAL_def)

lemma field_unparsed:
  assumes "length pre = 4" "length v = 9" "pf v = None"
  shows "chan_val pf i (pre @ v) = DEFAULT_VAL"
    and "chan_err pf ser_line i (pre @ v) e = preamble_error @ ser_line"
  using assms
  by (auto simp: chan_val_def chan_err_def accepted_def test_val_def PREAMBLE_SIZE_def
      VALUE_SIZE_def DELIMITER_def)

lemma read_frame:
  assumes wf: "wf_sel st" and pos: "0 < channels st"
    and nc: "\<forall>i < nat (channels st). CHR '','' \<notin> set (fld i)"
    and ser: "ser_line = join_comma (map fld [0..<nat (channels st)]) @ TERMINATOR"
    and len: "int (length ser_line) = read_line_size st"
    and vals: "vals = map (\<lambda>i. chan_val pf i (fld i)) [0..<nat (channels st)]"
  shows "read pf now (''OK'', ser_line) st
         = Inr (st\<lparr>tmp_temperature := vals, temperature := vals,
                   output_buf := PFloat now
                     # PStr (foldl (\<lambda>e i. chan_err pf ser_line i (fld i) e) ''OK''
                               [0..<nat (channels st)])
                     # vals\<rparr>)"
proof -
  let ?n = "nat (channels st)"
  let ?fs = "map fld [0..<?n]"
  have ne: "?fs \<noteq> []" using pos by simp
  have "\<forall>f \<in> set (butlast ?fs). CHR '','' \<notin> set f"
    using nc by (auto dest!: in_set_butlastD)
  from py_split_join [OF ne this]
  have split: "py_split (CHR '','') (channels st - 1) (join_comma ?fs) = ?fs"
    using pos by simp
  have t1: "last_chars (length TERMINATOR) ser_line = TERMINATOR"
    by (simp add: ser last_chars_def)
  have t2: "?fs = py_split (CHR '','') (channels st - 1) (without_last (length TERMINATOR) ser_line)"
    by (simp add: ser without_last_def split)
  have v: "vals = map (\<lambda>i. chan_val pf i (?fs ! i)) [0..<?n]"
    unfolding vals by (rule map_cong) simp_all
  have e: "foldl (\<lambda>e i. chan_err pf ser_line i (?fs ! i) e) ''OK'' [0..<?n]
           = foldl (\<lambda>e i. chan_err pf ser_line i (fld i) e) ''OK'' [0..<?n]"
    by (rule foldl_cong) simp_all
  show ?thesis
    using read_fields [OF wf t1 len t2 _ v, of now] by (simp add: e)
qed

lemma mock_line_shape:
  assumes wf: "wf_sel st"
    and len: "int (length (mock_line (channels st) off TERMINATOR txt)) = read_line_size st"
    and tx: "\<forall>i < nat (channels st). length (txt i) = 9"
  shows "0 < channels st" and "\<forall>i < nat (channels st). length (preamble_of (i + off)) = 4"
proof -
  let ?n = "nat (channels st)"
  let ?fld = "\<lambda>i. preamble_of (i + off) @ txt i"
  have size: "read_line_size st = channels st * 14 + 1" by (rule wf_selD(5) [OF wf])
  show pos: "0 < channels st"
  proof (rule ccontr)
    assume "\<not> 0 < channels st"
    then have "mock_line (channels st) off TERMINATOR txt = []"
      by (simp add: mock_line_def py_range_def)
    with len size show False by simp presburger
  qed
  have ml: "mock_line (channels st) off TERMINATOR txt = join_comma (map ?fld [0..<?n]) @ TERMINATOR"
    by (rule mock_line_join [OF pos])
  have ne: "map ?fld [0..<?n] \<noteq> []" using pos by simp
  have lens: "map length (map ?fld [0..<?n]) = map (\<lambda>i. length (preamble_of (i + off)) + 9) [0..<?n]"
    using tx by simp
  have "length (join_comma (map ?fld [0..<?n])) + 1
        = sum_list (map (\<lambda>i. length (preamble_of (i + off))) [0..<?n]) + 9 * ?n + ?n"
    using length_join_comma [OF ne] unfolding lens
    by (simp add: sum_list_addf sum_list_triv)
  moreover have "int (length (join_comma (map ?fld [0..<?n]))) + 2 = channels st * 14 + 1"
  proof -
    have "length (mock_line (channels st) off TERMINATOR txt)
          = length (join_comma (map ?fld [0..<?n])) + 2"
      unfolding ml by (simp add: TERMINATOR_def)
    with len size show ?thesis by linarith
  qed
  ultimately have "sum_list (map (\<lambda>i. length (preamble_of (i + off))) [0..<?n]) = 4 * ?n"
    using pos by linarith
  then have "sum_list (map (\<lambda>i. length (preamble_of (i + off))) [0..<?n]) = 4 * length [0..<?n]"
    by simp
  from sum_list_tight [OF _ this]
  show "\<forall>i < ?n. length (preamble_of (i + off)) = 4"
    by (simp add: length_preamble_ge)
qed

lemma read_mock_line:
  assumes wf: "wf_sel st"
    and len: "int (length (mock_line (channels st) off TERMINATOR txt)) = read_line_size st"
    and tx: "\<forall>i < nat (channels st). length (txt i) = 9 \<and> CHR '','' \<notin> set (txt i)"
  shows "read pf now (''OK'', mock_line (channels st) off TERMINATOR txt) st
         = Inr (st\<lparr>tmp_temperature := frame_vals pf off txt (nat (channels st)),
                   temperature := frame_vals pf off txt (nat (channels st)),
                   output_buf := PFloat now
                     # PStr (frame_err pf (mock_line (channels st) off TERMINATOR txt) off txt
                               (nat (channels st)))
                     # frame_vals pf off txt (nat (channels st))\<rparr>)"
proof -
  have tx9: "\<forall>i < nat (channels st). length (txt i) = 9" using tx by simp
  have pos: "0 < channels st" by (rule mock_line_shape(1) [OF wf len tx9])
  show ?thesis
    unfolding frame_vals_def frame_err_def
  proof (rule read_frame [OF wf pos _ _ len])
    show "\<forall>i<nat (channels st). CHR '','' \<notin> set (preamble_of (i + off) @ txt i)"
      using tx by (simp add: preamble_no_comma)
    show "mock_line (channels st) off TERMINATOR txt =
      join_comma (map (\<lambda>i. preamble_of (i + off) @ txt i) [0..<nat (channels st)]) @ TERMINATOR"
      by (rule mock_line_join [OF pos])
  qed simp
qed

lemma dec_small: "n < 10 \<Longrightarrow> dec n = [digit_char n]"
  by (subst dec.simps) simp

lemma mock_line_bad4:
  "mock_line 4 0 bad_terminator txt4
   = ''C00=0018.1234,C01=0020.0000,C02=0025.5000,C03=0029.9999'' @ bad_terminator"
  by (simp add: mock_line_def format_temperature_def py_range_def txt4_def fmt02_def dec_small
      digit_char_def DELIMITER_def upt_rec [of _ "numeral _"] numeral_eq_Suc)

subsection \<open>Valid lines of the mock; the conversion instance\<close>

lemma foldl_id: "(\<And>x e. x \<in> set xs \<Longrightarrow> g e x = e) \<Longrightarrow> foldl g e0 xs = e0"
  by (induction xs) simp_all

lemma foldl_upt_one:
  assumes "k < n" and "\<And>j e. j < n \<Longrightarrow> j \<noteq> k \<Longrightarrow> g e j = e"
  shows "foldl g e0 [0..<n] = g e0 k"
proof -
  have sp: "[0..<n] = [0..<k] @ k # [Suc k..<n]"
    using assms(1) by (metis upt_conv_Cons upt_add_eq_append le0 add_0 less_imp_le_nat le_add_diff_inverse)
  have a: "foldl g e0 [0..<k] = e0"
    using assms by (intro foldl_id) auto
  have b: "foldl g e [Suc k..<n] = e" for e
    using assms by (intro foldl_id) auto
  show ?thesis by (simp add: sp a b)
qed

lemma mock_line_length:
  assumes pos: "0 < chans"
    and tx: "\<forall>i < nat chans. length (txt i) = 9"
    and pre: "\<forall>i < nat chans. length (preamble_of (i + off)) = 4"
  shows "int (length (mock_line chans off TERMINATOR txt)) = chans * 14 + 1"
proof -
  let ?n = "nat chans"
  let ?fld = "\<lambda>i. preamble_of (i + off) @ txt i"
  have ne: "map ?fld [0..<?n] \<noteq> []" using pos by simp
  have lens: "map length (map ?fld [0..<?n]) = map (\<lambda>i. 13) [0..<?n]"
    using tx pre by simp
  have "length (join_comma (map ?fld [0..<?n])) + 1 = 13 * ?n + ?n"
    using length_join_comma [OF ne] unfolding lens by (simp add: sum_list_triv)
  moreover have "length (mock_line chans off TERMINATOR txt)
          = length (join_comma (map ?fld [0..<?n])) + 2"
    unfolding mock_line_join [OF pos] by (simp add: TERMINATOR_def)
  ultimately show ?thesis using pos by linarith
qed

lemma read_valid_mock_line:
  assumes wf: "wf_sel st"
    and comma: "\<forall>s. CHR '','' \<in> set s \<longrightarrow> pf s = None"
    and off: "off = 0 \<or> off = 1"
    and len: "int (length (mock_line (channels st) off TERMINATOR txt)) = read_line_size st"
    and valid: "\<forall>i < nat (channels st).
                  length (txt i) = 9 \<and> txt i \<noteq> SENSOR_UNCONNECTED_VAL \<and> pf (txt i) \<noteq> None"
  shows "read pf now (''OK'', mock_line (channels st) off TERMINATOR txt) st
         = Inr (st\<lparr>tmp_temperature := map (\<lambda>i. PFloat (the (pf (txt i)))) [0..<nat (channels st)],
                   temperature := map (\<lambda>i. PFloat (the (pf (txt i)))) [0..<nat (channels st)],
                   output_buf := PFloat now # PStr ''OK''
                     # map (\<lambda>i. PFloat (the (pf (txt i)))) [0..<nat (channels st)]\<rparr>)"
proof -
  let ?n = "nat (channels st)"
  let ?ser = "mock_line (channels st) off TERMINATOR txt"
  have tx9: "\<forall>i < ?n. length (txt i) = 9" using valid by simp
  have nc: "\<forall>i < ?n. length (txt i) = 9 \<and> CHR '','' \<notin> set (txt i)"
    using valid comma by auto
  have pre4: "\<forall>i < ?n. length (preamble_of (i + off)) = 4"
    by (rule mock_line_shape(2) [OF wf len tx9])
  have good: "chan_val pf i (preamble_of (i + off) @ txt i) = PFloat (the (pf (txt i)))
              \<and> chan_err pf ?ser i (preamble_of (i + off) @ txt i) e = e" if "i < ?n" for i e
  proof -
    from that valid obtain x where x: "pf (txt i) = Some x" by auto
    have p: "preamble_of (i + off) = preamble_of i \<or> preamble_of (i + off) = preamble_of (Suc i)"
      using off by auto
    have l4: "length (preamble_of (i + off)) = 4" using that pre4 by simp
    have l9: "length (txt i) = 9" and ns: "txt i \<noteq> SENSOR_UNCONNECTED_VAL"
      using that valid by simp_all
    show ?thesis
      using field_good(1) [where pre = "preamble_of (i + off)" and i = i and v = "txt i"
          and pf = pf and x = x]
        field_good(2) [where pre = "preamble_of (i + off)" and i = i and v = "txt i"
          and pf = pf and x = x and ser_line = ?ser and e = e]
        l4 p l9 x ns by simp
  qed
  have v: "frame_vals pf off txt ?n = map (\<lambda>i. PFloat (the (pf (txt i)))) [0..<?n]"
    unfolding frame_vals_def by (rule map_cong) (simp_all add: good)
  have e: "frame_err pf ?ser off txt ?n = ''OK''"
    unfolding frame_err_def by (rule foldl_id) (simp add: good)
  show ?thesis
    using read_mock_line [OF wf len nc, of pf now] by (simp add: v e)
qed

lemma digits_val_bad:
  "c \<in> set cs \<Longrightarrow> digit_val c = None \<Longrightarrow> digits_val cs acc = None"
  by (induction cs arbitrary: acc) (auto split: option.splits)

lemma digits_val_comma: "CHR '','' \<in> set cs \<Longrightarrow> digits_val cs acc = None"
  by (erule digits_val_bad) (simp add: digit_val_def)

lemma unsigned_float_no_comma: "CHR '','' \<in> set s \<Longrightarrow> unsigned_float s = None"
proof -
  assume c: "CHR '','' \<in> set s"
  let ?ip = "takeWhile (\<lambda>c. c \<noteq> CHR ''.'') s"
  let ?rest = "dropWhile (\<lambda>c. c \<noteq> CHR ''.'') s"
  have "set s = set ?ip \<union> set ?rest"
    by (metis set_append takeWhile_dropWhile_id)
  with c have "CHR '','' \<in> set ?ip \<or> CHR '','' \<in> set ?rest" by simp
  moreover have "CHR '','' \<in> set ?rest \<Longrightarrow> CHR '','' \<in> set (drop 1 ?rest)"
  proof (cases ?rest)
    case Nil
    then show "CHR '','' \<in> set ?rest \<Longrightarrow> ?thesis" by simp
  next
    case (Cons a r)
    then have "a = CHR ''.''" using hd_dropWhile [of "\<lambda>c. c \<noteq> CHR ''.''" s] by auto
    with Cons show "CHR '','' \<in> set ?rest \<Longrightarrow> ?thesis" by auto
  qed
  ultimately have "CHR '','' \<in> set ?ip \<or> CHR '','' \<in> set (drop 1 ?rest)" by blast
  then have "digits_val ?ip 0 = None \<or> digits_val (drop 1 ?rest) 0 = None"
    by (auto simp: digits_val_comma)
  then show ?thesis
    by (auto simp: unsigned_float_def Let_def split: option.splits)
qed

lemma plain_float_no_comma: "\<forall>s. CHR '','' \<in> set s \<longrightarrow> plain_float s = None"
proof (intro allI impI)
  fix s assume "CHR '','' \<in> set s"
  then show "plain_float s = None"
    by (cases s) (auto simp: plain_float.simps unsigned_float_no_comma)
qed

lemma less4: "i < 4 \<longleftrightarrow> i = 0 \<or> i = 1 \<or> i = 2 \<or> i = (3::nat)"
  by auto

lemma plain_float_txt4:
  "plain_float ''0018.1234'' = Some (181234 / 10000)"
  "plain_float ''0020.0000'' = Some 20"
  "plain_float ''0025.5000'' = Some (255 / 10)"
  "plain_float ''0029.9999'' = Some (299999 / 10000)"
  "plain_float ''-201.0000'' = Some (- 201)"
  by (simp_all add: plain_float.simps unsigned_float_def digit_val_def Let_def)

lemma txt4_parse:
  "plain_float (txt4 0) \<noteq> None" "plain_float (txt4 1) \<noteq> None"
  "plain_float (txt4 2) \<noteq> None" "plain_float (txt4 3) \<noteq> None"
  by (simp_all add: txt4_def plain_float_txt4)

lemma txt4_valid:
  "\<forall>i < nat (channels sel4).
     length (txt4 i) = 9 \<and> txt4 i \<noteq> SENSOR_UNCONNECTED_VAL \<and> plain_float (txt4 i) \<noteq> None"
proof -
  have "length (txt4 i) = 9 \<and> txt4 i \<noteq> SENSOR_UNCONNECTED_VAL" if "i < 4" for i
    using that by (auto simp: less4 txt4_def SENSOR_UNCONNECTED_VAL_def)
  moreover have "plain_float (txt4 i) \<noteq> None" if "i < 4" for i
    using that txt4_parse unfolding less4 by (elim disjE) simp_all
  ultimately show ?thesis by (simp add: sel4_fields)
qed

lemma mock_line4_length:
  assumes "off = 0 \<or> off = 1" "\<forall>i < 4. length (txt i) = 9"
  shows "int (length (mock_line (channels sel4) off TERMINATOR txt)) = read_line_size sel4"
  using mock_line_length [where chans = 4 and off = off] assms
  by (auto simp: sel4_fields length_preamble_small)

subsection \<open>The invariant is kept; reads of the concrete decoder\<close>

lemma read_wf:
  assumes wf: "wf_sel st" and r: "read pf now rl st = Inr st'"
  shows "wf_sel st'"
proof -
  obtain err ser_line where rl: "rl = (err, ser_line)" by (cases rl)
  let ?n = "nat (channels st)"
  let ?temps = "py_split (CHR '','') (channels st - 1) (without_last (length TERMINATOR) ser_line)"
  show ?thesis
  proof (cases "err = ''OK'' \<and> last_chars (length TERMINATOR) ser_line = TERMINATOR
            \<and> int (length ser_line) = read_line_size st")
    case False
    from read_malformed [OF wf False, of pf now] r rl
    have "st' = st\<lparr>tmp_temperature := replicate ?n DEFAULT_VAL, temperature := temperature st,
                   output_buf := PFloat now
                     # PStr (if err = ''OK'' then line_error @ ser_line else err)
                     # temperature st\<rparr>"
      by simp
    then show ?thesis
      using wf by (simp add: wf_sel_def)
  next
    case True
    show ?thesis
    proof (cases "length ?temps < ?n")
      case short: True
      from read_short [OF wf _ _ short, of pf now] True r rl show ?thesis by simp
    next
      case False
      then have le: "?n \<le> length ?temps" by simp
      from read_fields [OF wf _ _ refl le refl, of pf now] True r rl
      have "st' = st\<lparr>tmp_temperature := map (\<lambda>i. chan_val pf i (?temps ! i)) [0..<?n],
                     temperature := map (\<lambda>i. chan_val pf i (?temps ! i)) [0..<?n],
                     output_buf := PFloat now
                       # PStr (foldl (\<lambda>e i. chan_err pf ser_line i (?temps ! i) e) ''OK'' [0..<?n])
                       # map (\<lambda>i. chan_val pf i (?temps ! i)) [0..<?n]\<rparr>"
        by simp
      then show ?thesis using wf by (simp add: wf_sel_def)
    qed
  qed
qed

lemma read_good4: "read plain_float 0 (readline 4 0 TERMINATOR txt4) sel4 = Inr sel4_good"
proof -
  have len: "int (length (mock_line (channels sel4) 0 TERMINATOR txt4)) = read_line_size sel4"
    using txt4_valid by (intro mock_line4_length) (simp_all add: sel4_fields)
  have vals: "map (\<lambda>i. PFloat (the (plain_float (txt4 i)))) [0..<4] = vals4"
    by (simp add: vals4_def txt4_def plain_float_txt4 upt_rec [of _ "numeral _"] numeral_eq_Suc)
  show ?thesis
    using read_valid_mock_line [OF sel4_wf plain_float_no_comma _ len txt4_valid, of 0]
    by (simp add: readline_def sel4_fields vals sel4_good_def)
qed

lemma sel4_good_wf: "wf_sel sel4_good"
  by (rule read_wf [OF sel4_wf read_good4])

lemma sel4_good_fields:
  "channels sel4_good = 4" "read_line_size sel4_good = 57" "temperature sel4_good = vals4"
  by (simp_all add: sel4_good_def sel4_fields)

lemma bad4_not_terminated:
  "\<not> (e = ''OK'' \<and> last_chars (length TERMINATOR) (mock_line 4 0 bad_terminator txt4) = TERMINATOR
      \<and> int (length (mock_line 4 0 bad_terminator txt4)) = read_line_size st)"
  unfolding mock_line_bad4
  by (simp add: last_chars_def TERMINATOR_def bad_terminator_def)

lemma txt4u_shape:
  "\<forall>i < nat (channels sel4_good). length (txt4u i) = 9 \<and> CHR '','' \<notin> set (txt4u i)"
  by (auto simp: sel4_good_fields less4 txt4u_def)

lemma preamble_small:
  "preamble_of 0 = ''C00=''" "preamble_of 1 = ''C01=''" "preamble_of 2 = ''C02=''"
  "preamble_of 3 = ''C03=''" "preamble_of 4 = ''C04=''" "preamble_of (Suc 0) = ''C01=''"
  by (simp_all add: preamble_of_def fmt02_def dec_small digit_char_def)

lemma upt4: "[0..<4] = [0, 1, 2, 3]"
  by (simp add: upt_rec [of _ "numeral _"] numeral_eq_Suc)

lemma test_val_txt4u:
  "test_val plain_float ''C00='' ''C00=0018.1234''"
  "test_val plain_float ''C01='' ''C01=0020.0000''"
  "test_val plain_float ''C02='' ''C02=-201.0000''"
  "test_val plain_float ''C03='' ''C03=0029.9999''"
  by (simp_all add: test_val_def PREAMBLE_SIZE_def VALUE_SIZE_def DELIMITER_def plain_float_txt4)

lemma chan_txt4u:
  "chan_val plain_float 0 ''C00=0018.1234'' = PFloat (181234 / 10000)"
  "chan_val plain_float (Suc 0) ''C01=0020.0000'' = PFloat 20"
  "chan_val plain_float 2 ''C02=-201.0000'' = PStr ''9999.9990''"
  "chan_val plain_float 3 ''C03=0029.9999'' = PFloat (299999 / 10000)"
  "chan_err plain_float ser 0 ''C00=0018.1234'' e = e"
  "chan_err plain_float ser (Suc 0) ''C01=0020.0000'' e = e"
  "chan_err plain_float ser 2 ''C02=-201.0000'' e = e"
  "chan_err plain_float ser 3 ''C03=0029.9999'' e = e"
  by (simp_all add: chan_val_def chan_err_def accepted_def preamble_small test_val_txt4u
      PREAMBLE_SIZE_def SENSOR_UNCONNECTED_VAL_def DEFAULT_VAL_def plain_float_txt4)

lemma frame_vals4u: "frame_vals plain_float 0 txt4u 4 = vals4u"
  by (simp add: frame_vals_def upt4 vals4u_def txt4u_def preamble_small chan_txt4u)

lemma frame_err4u: "frame_err plain_float ser 0 txt4u 4 = ''OK''"
  by (simp add: frame_err_def upt4 txt4u_def preamble_small chan_txt4u)

lemma txt4u_others:
  "\<forall>j < nat (channels sel4_good). j \<noteq> 2 \<longrightarrow>
     txt4u j \<noteq> SENSOR_UNCONNECTED_VAL \<and> plain_float (txt4u j) \<noteq> None"
proof -
  have "txt4u j \<noteq> SENSOR_UNCONNECTED_VAL" if "j < 4" "j \<noteq> 2" for j
    using that by (auto simp: less4 txt4u_def SENSOR_UNCONNECTED_VAL_def)
  moreover have "plain_float (txt4u j) \<noteq> None" if "j < 4" for j
    using that unfolding less4 by (elim disjE) (simp_all add: txt4u_def plain_float_txt4)
  ultimately show ?thesis by (simp add: sel4_good_fields)
qed

subsection \<open>Valid frames\<close>

text \<open>
  C1. Let the transport return status \<open>OK\<close> and the line the mock writes in the current
  numbering (\<open>count_offset = 0\<close>): field \<open>i\<close> is \<open>C{i:02d}=\<close> followed by the text \<open>txt i\<close>,
  fields are joined by the delimiter and the line ends with the terminator. If the line has
  the expected length and every \<open>txt i\<close> has 9 characters, converts to a float and is not
  the unconnected-sensor text, then \<open>read\<close> returns, the status of the sample is \<open>OK\<close> and
  its values are the converted texts in channel order. The conversion \<open>pf\<close> is any function
  that, like the builtin, rejects a text containing a comma.
\<close>

theorem read_valid_current_frame:
  assumes "wf_sel st"
    and "\<forall>s. CHR '','' \<in> set s \<longrightarrow> pf s = None"
    and "int (length (mock_line (channels st) 0 TERMINATOR txt)) = read_line_size st"
    and "\<forall>i < nat (channels st).
           length (txt i) = 9 \<and> txt i \<noteq> SENSOR_UNCONNECTED_VAL \<and> pf (txt i) \<noteq> None"
  shows "\<exists>st'. read pf now (readline (channels st) 0 TERMINATOR txt) st = Inr st'
           \<and> sample_status st' = PStr ''OK''
           \<and> sample_values st' = map (\<lambda>i. PFloat (the (pf (txt i)))) (py_range (channels st))
           \<and> temperature st' = sample_values st'"
  using read_valid_mock_line [OF assms(1,2) _ assms(3,4), of now]
  by (simp add: readline_def sample_status_def sample_values_def py_range_def)

theorem read_valid_current_frame_witness:
  "wf_sel sel4
   \<and> int (length (mock_line 4 0 TERMINATOR txt4)) = read_line_size sel4
   \<and> (\<exists>st'. read plain_float 0 (readline 4 0 TERMINATOR txt4) sel4 = Inr st'
         \<and> sample_status st' = PStr ''OK''
         \<and> sample_values st'
             = [PFloat (181234 / 10000), PFloat 20, PFloat (255 / 10), PFloat (299999 / 10000)])"
proof -
  have len: "int (length (mock_line (channels sel4) 0 TERMINATOR txt4)) = read_line_size sel4"
    using txt4_valid by (intro mock_line4_length) (simp_all add: sel4_fields)
  have vals: "map (\<lambda>i. PFloat (the (plain_float (txt4 i)))) (py_range 4)
              = [PFloat (181234 / 10000), PFloat 20, PFloat (255 / 10), PFloat (299999 / 10000)]"
    by (simp add: py_range_def txt4_def plain_float_txt4 upt_rec [of _ "numeral _"] numeral_eq_Suc)
  show ?thesis
    using sel4_wf len
      read_valid_current_frame [OF sel4_wf plain_float_no_comma len txt4_valid, of 0]
    by (auto simp: sel4_fields vals)
qed

text \<open>
  C5. Under the same conditions on the value texts, a line written in the legacy numbering
  (\<open>count_offset = 1\<close>, field \<open>i\<close> tagged \<open>C{i+1:02d}=\<close>) that has the expected length is
  decoded to the very same decoder state, status and values as the line with the same
  value texts in the current numbering.
\<close>

theorem read_legacy_frame_same_as_current:
  assumes "wf_sel st"
    and "\<forall>s. CHR '','' \<in> set s \<longrightarrow> pf s = None"
    and "int (length (mock_line (channels st) 1 TERMINATOR txt)) = read_line_size st"
    and "\<forall>i < nat (channels st).
           length (txt i) = 9 \<and> txt i \<noteq> SENSOR_UNCONNECTED_VAL \<and> pf (txt i) \<noteq> None"
  shows "\<exists>st'. read pf now (readline (channels st) 1 TERMINATOR txt) st = Inr st'
           \<and> read pf now (readline (channels st) 0 TERMINATOR txt) st = Inr st'
           \<and> sample_status st' = PStr ''OK''
           \<and> sample_values st' = map (\<lambda>i. PFloat (the (pf (txt i)))) (py_range (channels st))"
proof -
  let ?n = "nat (channels st)"
  have tx9: "\<forall>i < ?n. length (txt i) = 9" using assms(4) by simp
  have pos: "0 < channels st" by (rule mock_line_shape(1) [OF assms(1,3) tx9])
  have "\<forall>i < ?n. length (preamble_of (i + 1)) = 4"
    by (rule mock_line_shape(2) [OF assms(1,3) tx9])
  then have "\<forall>i < ?n. length (preamble_of (i + 0)) = 4"
    using length_preamble_4D length_preamble_small
    by (metis add_0_right add_lessD1)
  from mock_line_length [OF pos tx9 this]
  have len0: "int (length (mock_line (channels st) 0 TERMINATOR txt)) = read_line_size st"
    using wf_selD(5) [OF assms(1)] by simp
  show ?thesis
    using read_valid_mock_line [OF assms(1,2) _ assms(3,4), of now]
      read_valid_mock_line [OF assms(1,2) _ len0 assms(4), of now]
    by (simp add: readline_def sample_status_def sample_values_def py_range_def)
qed

theorem read_legacy_frame_same_as_current_witness:
  "wf_sel sel4
   \<and> int (length (mock_line 4 1 TERMINATOR txt4)) = read_line_size sel4
   \<and> (\<exists>st'. read plain_float 0 (readline 4 1 TERMINATOR txt4) sel4 = Inr st'
         \<and> read plain_float 0 (readline 4 0 TERMINATOR txt4) sel4 = Inr st'
         \<and> sample_status st' = PStr ''OK''
         \<and> sample_values st'
             = [PFloat (181234 / 10000), PFloat 20, PFloat (255 / 10), PFloat (299999 / 10000)])"
proof -
  have len: "int (length (mock_line (channels sel4) 1 TERMINATOR txt4)) = read_line_size sel4"
    using txt4_valid by (intro mock_line4_length) (simp_all add: sel4_fields)
  have vals: "map (\<lambda>i. PFloat (the (plain_float (txt4 i)))) (py_range 4)
              = [PFloat (181234 / 10000), PFloat 20, PFloat (255 / 10), PFloat (299999 / 10000)]"
    by (simp add: py_range_def txt4_def plain_float_txt4 upt_rec [of _ "numeral _"] numeral_eq_Suc)
  show ?thesis
    using sel4_wf len
      read_legacy_frame_same_as_current [OF sel4_wf plain_float_no_comma len txt4_valid, of 0]
    by (auto simp: sel4_fields vals)
qed

subsection \<open>Framing errors\<close>

text \<open>
  C4. When the raw line's length differs from the expected line size, or its last two
  characters are not the terminator, \<open>read\<close> returns normally, leaves the persisted
  \<open>temperature\<close> buffer as it was for every channel, and the status of the sample is
  not \<open>OK\<close>. This holds for every transport status.
\<close>

theorem read_framing_error_keeps_temperature:
  assumes "wf_sel st"
    and "int (length ser_line) \<noteq> read_line_size st
         \<or> last_chars (length TERMINATOR) ser_line \<noteq> TERMINATOR"
  shows "\<exists>st'. read pf now (err, ser_line) st = Inr st'
           \<and> temperature st' = temperature st
           \<and> sample_status st' \<noteq> PStr ''OK''"
proof -
  have "\<not> (err = ''OK'' \<and> last_chars (length TERMINATOR) ser_line = TERMINATOR
            \<and> int (length ser_line) = read_line_size st)"
    using assms(2) by blast
  from read_malformed [OF assms(1) this, of pf now]
  show ?thesis by (auto simp: sample_status_def line_error_def)
qed

theorem read_framing_error_keeps_temperature_witness:
  "wf_sel sel4_good
   \<and> temperature sel4_good = vals4
   \<and> last_chars (length TERMINATOR) (mock_line 4 0 bad_terminator txt4) \<noteq> TERMINATOR
   \<and> (\<exists>st'. read plain_float 1 (''OK'', mock_line 4 0 bad_terminator txt4) sel4_good = Inr st'
           \<and> temperature st' = temperature sel4_good
           \<and> temperature st' = vals4
           \<and> sample_status st' \<noteq> PStr ''OK'')"
proof -
  have h: "last_chars (length TERMINATOR) (mock_line 4 0 bad_terminator txt4) \<noteq> TERMINATOR"
    unfolding mock_line_bad4
    by (simp add: last_chars_def TERMINATOR_def bad_terminator_def)
  then have h': "int (length (mock_line 4 0 bad_terminator txt4)) \<noteq> read_line_size sel4_good
           \<or> last_chars (length TERMINATOR) (mock_line 4 0 bad_terminator txt4) \<noteq> TERMINATOR"
    by blast
  show ?thesis
    using sel4_good_wf h sel4_good_fields(3)
      read_framing_error_keeps_temperature [OF sel4_good_wf h', of plain_float 1 "''OK''"]
    by auto
qed

text \<open>
  C6 (the code departs from the claim). A line of the expected length that ends with the
  terminator but holds no delimiter splits into a single field: on a four-channel decoder
  the channel loop then reads \<open>temps[1]\<close>, and \<open>read\<close> raises \<open>IndexError\<close> instead of
  returning a sample.
\<close>

theorem read_raises_on_missing_delimiters:
  "read pf now (''OK'', replicate 55 (CHR ''x'') @ TERMINATOR) sel4 = Inl IndexError"
proof (rule read_short [OF sel4_wf])
  show "last_chars (length TERMINATOR) (replicate 55 (CHR ''x'') @ TERMINATOR) = TERMINATOR"
    by (simp add: last_chars_def)
  show "int (length (replicate 55 (CHR ''x'') @ TERMINATOR)) = read_line_size sel4"
    by (simp add: sel4_fields TERMINATOR_def)
  have "py_split (CHR '','') k (replicate m (CHR ''x'')) = [replicate m (CHR ''x'')]" for k m
    by (induction m) simp_all
  then show "length (py_split (CHR '','') (channels sel4 - 1)
           (without_last (length TERMINATOR) (replicate 55 (CHR ''x'') @ TERMINATOR)))
         < nat (channels sel4)"
    by (simp add: without_last_def sel4_fields)
qed

subsection \<open>Construction and start\<close>

text \<open>
  C7 (the code departs from the claim). \<open>__init__\<close> consults registries it has just bound
  to empty dictionaries, so neither test can fail: whenever the base initialiser returns,
  the construction completes for every name and every device, also for a name and a device
  that an earlier decoder was built with.
\<close>

theorem sel_init_never_rejects:
  "\<exists>obj. sel_init (\<lambda>n d. None) nm dev chans = Inr (obj :: 'f sel_temperature)
          \<and> name obj = nm \<and> comport obj = dev"
  by (simp add: sel_init_def)

lemma start_overflow:
  "double_of_int (channels st + 1) = None \<Longrightarrow> start st = Inl OverflowError"
  by (simp add: start_def double_imul_def)

lemma CH_READ_TIME_nearest:
  "2 ^ 52 \<le> fst CH_READ_TIME" "fst CH_READ_TIME < 2 ^ 53"
  "\<bar>double_val CH_READ_TIME - 167 / 1000\<bar> \<le> 1 / 2 ^ 56"
  by (simp_all add: CH_READ_TIME_def double_val_def)

lemma bitlen_0: "bitlen 0 = 0"
  by (subst bitlen.simps) simp

lemma bitlen_pos: "0 < n \<Longrightarrow> bitlen n = Suc (bitlen (n div 2))"
  by (subst bitlen.simps) simp

lemma bitlen_le: "n < 2 ^ m \<Longrightarrow> bitlen n \<le> m"
proof (induction m arbitrary: n)
  case 0
  then show ?case by (simp add: bitlen_0)
next
  case (Suc m)
  show ?case
  proof (cases "n = 0")
    case True
    then show ?thesis by (simp add: bitlen_0)
  next
    case False
    from Suc.prems have "n div 2 < 2 ^ m" by simp
    from Suc.IH [OF this] False show ?thesis by (simp add: bitlen_pos)
  qed
qed

text \<open>Every int below \<open>2^53\<close> in absolute value converts, and exactly.\<close>

lemma double_of_int_exact:
  assumes "\<bar>k\<bar> < 2 ^ 53"
  shows "double_of_int k = Some (k, 0)"
proof -
  have "nat \<bar>k\<bar> < 2 ^ 53" using assms by (simp add: nat_less_iff)
  then have "bitlen (nat \<bar>k\<bar>) \<le> 53" by (rule bitlen_le)
  then have r: "round53 k 0 = (k, 0)" by (simp add: round53_def)
  have "\<bar>k\<bar> < 2 ^ 1024"
    using assms power_strict_increasing [of 53 1024 "2::int"] by linarith
  then show ?thesis by (simp add: double_of_int_def r)
qed

lemma bitlen_55: "bitlen 30084045510834915 = 55"
  by (simp add: bitlen_0 bitlen_pos)

lemma double_imul_5: "double_imul 5 CH_READ_TIME = Some (7521011377708729, - 53)"
  by (simp add: double_imul_def double_of_int_exact CH_READ_TIME_def round53_def bitlen_55)

text \<open>
  C9. For a decoder constructed with any channel count, if the int \<open>channels + 1\<close> converts
  to a float (it does below \<open>2^53\<close>, see \<open>double_of_int_exact\<close>; it does not from about
  \<open>2^1024\<close> on, where \<open>start\<close> raises), then \<open>start\<close> sets the transport's line size to
  \<open>channels * (4 + 9 + 1) - 1 + 2\<close>, its terminator to carriage return and line feed, and
  its read timeout to the double product of \<open>channels + 1\<close> and \<open>CH_READ_TIME\<close>, the double
  of the literal 0.167. With four channels the line size is 57 and the timeout is the
  double \<open>0.8350000000000001\<close>, that is \<open>7521011377708729 / 2^53\<close>.
\<close>

theorem start_configures_transport:
  assumes "sel_init super_init nm dev chans = Inr st"
    and "double_of_int (chans + 1) = Some k"
  shows "\<exists>st' t. start st = Inr st'
           \<and> line_size (comport st') = Some (chans * (4 + 9 + 1) - 1 + 2)
           \<and> terminator (comport st') = Some [CHR 0x0D, CHR 0x0A]
           \<and> double_imul (chans + 1) CH_READ_TIME = Some t
           \<and> read_timeout (comport st') = Some t"
  using assms
  by (auto simp: sel_init_def start_def double_imul_def PREAMBLE_SIZE_def VALUE_SIZE_def
      DELIMITER_def TERMINATOR_def split: option.splits)

theorem start_configures_transport_witness:
  "sel_init (\<lambda>n d. None) ''MockSensor'' mock_sensor 4 = Inr sel4
   \<and> double_of_int (4 + 1) = Some (5, 0)
   \<and> double_imul (4 + 1) CH_READ_TIME = Some (7521011377708729, - 53)
   \<and> double_val (7521011377708729, - 53) = 7521011377708729 / 9007199254740992
   \<and> (\<exists>st'. start sel4 = Inr st'
         \<and> line_size (comport st') = Some 57
         \<and> terminator (comport st') = Some [CHR 0x0D, CHR 0x0A]
         \<and> read_timeout (comport st') = Some (7521011377708729, - 53))"
proof -
  have h: "sel_init (\<lambda>n d. None) ''MockSensor'' mock_sensor 4 = Inr sel4"
    by (simp add: sel4_def new_sel_def sel_init_def)
  have k: "double_of_int (4 + 1) = Some (5, 0)"
    using double_of_int_exact [of 5] by simp
  have m: "double_imul (4 + 1) CH_READ_TIME = Some (7521011377708729, - 53)"
    using double_imul_5 by simp
  have v: "double_val (7521011377708729, - 53) = 7521011377708729 / 9007199254740992"
    by (simp add: double_val_def)
  from start_configures_transport [OF h k] h k m v show ?thesis
    by auto
qed

subsection \<open>Channel errors\<close>

text \<open>
  C2, as stated, fails. After a good read channel 2 holds 25.5. A following line that is well
  formed, with the unconnected-sensor text \<open>-201.0000\<close> in channel 2, is read with status
  \<open>OK\<close> (no error is recorded), and channel 2 of the persisted buffer and of the sample is
  overwritten with the default \<open>"9999.9990"\<close>.
\<close>

theorem unconnected_channel_counterexample:
  "read plain_float 0 (readline 4 0 TERMINATOR txt4) sel4 = Inr sel4_good
   \<and> temperature sel4_good ! 2 = PFloat (255 / 10)
   \<and> txt4u 2 = SENSOR_UNCONNECTED_VAL
   \<and> read plain_float 1 (readline 4 0 TERMINATOR txt4u) sel4_good = Inr sel4_unconnected
   \<and> sample_status sel4_unconnected = PStr ''OK''
   \<and> temperature sel4_unconnected ! 2 = PStr ''9999.9990''
   \<and> sample_values sel4_unconnected ! 2 = PStr ''9999.9990''"
proof -
  have len: "int (length (mock_line (channels sel4_good) 0 TERMINATOR txt4u))
             = read_line_size sel4_good"
    using mock_line4_length [of 0 txt4u] txt4u_shape
    by (simp add: sel4_good_fields sel4_fields)
  have "read plain_float 1 (readline 4 0 TERMINATOR txt4u) sel4_good = Inr sel4_unconnected"
    using read_mock_line [OF sel4_good_wf len txt4u_shape, of plain_float 1]
    by (simp add: readline_def sel4_good_fields frame_vals4u frame_err4u sel4_unconnected_def
        sel4_good_def sel4_fields)
  then show ?thesis
    by (simp add: read_good4 sel4_good_fields vals4_def vals4u_def txt4u_def
        SENSOR_UNCONNECTED_VAL_def sel4_unconnected_def sample_status_def sample_values_def)
qed

text \<open>
  C2, amended. Take a line of the mock in either numbering that has the expected length,
  whose value texts have 9 characters and no delimiter. If the text of channel \<open>k\<close> is the
  unconnected-sensor text or does not convert, and every other text converts and is not
  the unconnected-sensor text, then \<open>read\<close> returns; channel \<open>k\<close> of the persisted buffer and
  of the sample is the default \<open>"9999.9990"\<close> (the earlier value is not kept); every other
  channel holds its newly converted value; the status is the malformed-response text
  followed by the line when the text of channel \<open>k\<close> does not convert, and \<open>OK\<close> when it
  is the unconnected-sensor text (which converts).
\<close>

theorem read_bad_channel_gets_default:
  assumes wf: "wf_sel st"
    and off: "off = 0 \<or> off = 1"
    and len: "int (length (mock_line (channels st) off TERMINATOR txt)) = read_line_size st"
    and shape: "\<forall>j < nat (channels st). length (txt j) = 9 \<and> CHR '','' \<notin> set (txt j)"
    and k: "k < nat (channels st)"
    and bad: "txt k = SENSOR_UNCONNECTED_VAL \<or> pf (txt k) = None"
    and others: "\<forall>j < nat (channels st). j \<noteq> k \<longrightarrow>
                   txt j \<noteq> SENSOR_UNCONNECTED_VAL \<and> pf (txt j) \<noteq> None"
  shows "\<exists>st'. read pf now (readline (channels st) off TERMINATOR txt) st = Inr st'
           \<and> temperature st' ! k = DEFAULT_VAL
           \<and> sample_values st' ! k = DEFAULT_VAL
           \<and> (\<forall>j < nat (channels st). j \<noteq> k \<longrightarrow>
                 temperature st' ! j = PFloat (the (pf (txt j)))
                 \<and> sample_values st' ! j = PFloat (the (pf (txt j))))
           \<and> sample_status st'
               = PStr (if pf (txt k) = None
                       then preamble_error @ mock_line (channels st) off TERMINATOR txt
                       else ''OK'')"
proof -
  let ?n = "nat (channels st)"
  let ?ser = "mock_line (channels st) off TERMINATOR txt"
  let ?fld = "\<lambda>i. preamble_of (i + off) @ txt i"
  have tx9: "\<forall>i < ?n. length (txt i) = 9" using shape by simp
  have pre4: "\<forall>i < ?n. length (preamble_of (i + off)) = 4"
    by (rule mock_line_shape(2) [OF wf len tx9])
  have p: "preamble_of (i + off) = preamble_of i \<or> preamble_of (i + off) = preamble_of (Suc i)"
    for i using off by auto
  have good: "chan_val pf j (?fld j) = PFloat (the (pf (txt j)))
              \<and> chan_err pf ?ser j (?fld j) e = e" if "j < ?n" "j \<noteq> k" for j e
  proof -
    from that others obtain x where x: "pf (txt j) = Some x" by auto
    have l4: "length (preamble_of (j + off)) = 4" using that pre4 by simp
    have l9: "length (txt j) = 9" and ns: "txt j \<noteq> SENSOR_UNCONNECTED_VAL"
      using that shape others by simp_all
    show ?thesis
      using field_good(1) [where pre = "preamble_of (j + off)" and i = j and v = "txt j"
          and pf = pf and x = x]
        field_good(2) [where pre = "preamble_of (j + off)" and i = j and v = "txt j"
          and pf = pf and x = x and ser_line = ?ser and e = e]
        l4 p l9 x ns by simp
  qed
  have l4k: "length (preamble_of (k + off)) = 4" using k pre4 by simp
  have l9k: "length (txt k) = 9" using k shape by simp
  have badk: "chan_val pf k (?fld k) = DEFAULT_VAL
              \<and> chan_err pf ?ser k (?fld k) e
                  = (if pf (txt k) = None then preamble_error @ ?ser else e)" for e
  proof (cases "pf (txt k)")
    case None
    from field_unparsed(1) [where pre = "preamble_of (k + off)" and v = "txt k" and pf = pf
          and i = k]
      field_unparsed(2) [where pre = "preamble_of (k + off)" and v = "txt k" and pf = pf
          and i = k and ser_line = ?ser and e = e]
      l4k l9k None
    show ?thesis by simp
  next
    case (Some x)
    with bad have s: "txt k = SENSOR_UNCONNECTED_VAL" by simp
    with Some have x: "pf SENSOR_UNCONNECTED_VAL = Some x" by simp
    from field_unconnected(1) [where pre = "preamble_of (k + off)" and pf = pf and i = k
          and x = x]
      field_unconnected(2) [where pre = "preamble_of (k + off)" and pf = pf and i = k
          and x = x and ser_line = ?ser and e = e]
      l4k p x Some s
    show ?thesis by simp
  qed
  have vk: "frame_vals pf off txt ?n ! k = DEFAULT_VAL"
    using k by (simp add: frame_vals_def badk)
  have vj: "frame_vals pf off txt ?n ! j = PFloat (the (pf (txt j)))" if "j < ?n" "j \<noteq> k" for j
    using that by (simp add: frame_vals_def good)
  have e: "frame_err pf ?ser off txt ?n
           = (if pf (txt k) = None then preamble_error @ ?ser else ''OK'')"
    unfolding frame_err_def
    using foldl_upt_one [where g = "\<lambda>e i. chan_err pf ?ser i (?fld i) e" and k = k and n = ?n
        and ?e0.0 = "''OK''"] k good badk
    by simp
  show ?thesis
    using read_mock_line [OF wf len shape, of pf now] vk vj e
    by (simp add: readline_def sample_status_def sample_values_def)
qed

theorem read_bad_channel_gets_default_witness:
  "wf_sel sel4_good
   \<and> int (length (mock_line 4 0 TERMINATOR txt4u)) = read_line_size sel4_good
   \<and> txt4u 2 = SENSOR_UNCONNECTED_VAL
   \<and> (\<exists>st'. read plain_float 1 (readline 4 0 TERMINATOR txt4u) sel4_good = Inr st'
          \<and> temperature st' ! 2 = DEFAULT_VAL
          \<and> sample_values st' ! 2 = DEFAULT_VAL
          \<and> temperature st' ! 0 = PFloat (181234 / 10000)
          \<and> sample_values st' ! 3 = PFloat (299999 / 10000)
          \<and> sample_status st' = PStr ''OK'')"
proof -
  have off: "(0::nat) = 0 \<or> (0::nat) = 1" by simp
  have len: "int (length (mock_line (channels sel4_good) 0 TERMINATOR txt4u))
             = read_line_size sel4_good"
    using mock_line4_length [of 0 txt4u] txt4u_shape
    by (simp add: sel4_good_fields sel4_fields)
  have k: "2 < nat (channels sel4_good)" by (simp add: sel4_good_fields)
  have u: "txt4u 2 = SENSOR_UNCONNECTED_VAL"
    by (simp add: txt4u_def SENSOR_UNCONNECTED_VAL_def)
  then have bad: "txt4u 2 = SENSOR_UNCONNECTED_VAL \<or> plain_float (txt4u 2) = None" by simp
  have p: "plain_float (txt4u 2) \<noteq> None" "the (plain_float (txt4u 0)) = 181234 / 10000"
    "the (plain_float (txt4u 3)) = 299999 / 10000"
    by (simp_all add: txt4u_def plain_float_txt4)
  from read_bad_channel_gets_default [OF sel4_good_wf off len txt4u_shape k bad txt4u_others,
      of 1]
  obtain st' where st':
    "read plain_float 1 (readline (channels sel4_good) 0 TERMINATOR txt4u) sel4_good = Inr st'"
    "temperature st' ! 2 = DEFAULT_VAL" "sample_values st' ! 2 = DEFAULT_VAL"
    "\<forall>j < nat (channels sel4_good). j \<noteq> 2 \<longrightarrow>
        temperature st' ! j = PFloat (the (plain_float (txt4u j)))
        \<and> sample_values st' ! j = PFloat (the (plain_float (txt4u j)))"
    "sample_status st' = PStr (if plain_float (txt4u 2) = None
        then preamble_error @ mock_line (channels sel4_good) 0 TERMINATOR txt4u else ''OK'')"
    by blast
  from st'(4) have "temperature st' ! 0 = PFloat (the (plain_float (txt4u 0)))"
    "sample_values st' ! 3 = PFloat (the (plain_float (txt4u 3)))"
    by (simp_all add: sel4_good_fields)
  with st'(1,2,3,5) p sel4_good_wf len u show ?thesis
    by (auto simp: sel4_good_fields)
qed

subsection \<open>What a sample shows after an error\<close>

text \<open>
  C3 (the code departs from the claim). \<open>read\<close> resets \<open>_tmp_temperature\<close> to the default
  but builds the sample from \<open>temperature\<close>, which the framing-error branches leave alone:
  after a good read, a line with the terminator replaced by two line feeds yields a sample
  whose status is the terminator-or-line-size error and whose values are the four values
  of the earlier read, not the default.
\<close>

theorem bad_terminator_sample_shows_last_values:
  "read plain_float 0 (readline 4 0 TERMINATOR txt4) sel4 = Inr sel4_good
   \<and> temperature sel4_good = vals4
   \<and> (\<exists>st'. read plain_float 1 (''OK'', mock_line 4 0 bad_terminator txt4) sel4_good = Inr st'
          \<and> sample_status st' = PStr (line_error @ mock_line 4 0 bad_terminator txt4)
          \<and> sample_values st' = vals4
          \<and> sample_values st' \<noteq> replicate 4 DEFAULT_VAL)"
  using read_malformed [OF sel4_good_wf bad4_not_terminated, where pf = plain_float and now = 1
      and err = "''OK''"]
  by (simp add: read_good4 sel4_good_fields sample_status_def sample_values_def vals4_def
      DEFAULT_VAL_def numeral_eq_Suc)

text \<open>
  C8 (the code departs from the claim). The default is the string \<open>"9999.9990"\<close>, not a
  float: the first sample of a new four-channel decoder that reads a badly terminated line
  has four values, all of them strings.
\<close>

theorem default_values_are_strings:
  "\<exists>st'. read pf now (''OK'', mock_line 4 0 bad_terminator txt4) sel4 = Inr st'
     \<and> length (sample_values st') = 4
     \<and> sample_values st' = replicate 4 (PStr ''9999.9990'')
     \<and> filter is_float (sample_values st') = []"
  using read_malformed [OF sel4_wf bad4_not_terminated, where pf = pf and now = now
      and err = "''OK''"]
  by (simp add: sel4_fields sample_values_def DEFAULT_VAL_def is_float_def numeral_eq_Suc)

end
